theory Spec2Isabelle
  imports Complex_Main "HOL-Library.Monad_Syntax"
begin

section \<open>Data\<close>

text \<open>
  The support-polygon code of \<^verbatim>\<open>convex_hull\<close> computes with C++ \<^verbatim>\<open>double\<close> and
  \<^verbatim>\<open>float\<close> coordinates. They are idealised as \<^typ>\<open>real\<close> here: the properties below
  are about which formula and which branch the code takes, not about rounding.
  Loop counters are \<^verbatim>\<open>unsigned int\<close> in the source and \<^typ>\<open>nat\<close> here: the containers
  they run over hold a handful of contact points, far fewer than \<open>2 ^ 32\<close>.
\<close>

record KDL_Vector =
  kdl_x :: real
  kdl_y :: real
  kdl_z :: real

record PointXYZ =
  pcl_x :: real
  pcl_y :: real
  pcl_z :: real

type_synonym PointCloud = "PointXYZ list"

text \<open>\<^verbatim>\<open>pcl::Vertices\<close>: the field \<^verbatim>\<open>vertices\<close>, a vector of indices into a cloud.\<close>

type_synonym Vertices = "nat list"

text \<open>
  \<^verbatim>\<open>yarp::sig::Matrix\<close> as its list of rows and \<^verbatim>\<open>yarp::sig::Vector\<close> as a list.
  An access out of range is undefined behaviour in the source and \<open>None\<close> here.
\<close>

type_synonym yarp_Matrix = "real list list"
type_synonym yarp_Vector = "real list"

definition Matrix_set :: "yarp_Matrix \<Rightarrow> nat \<Rightarrow> nat \<Rightarrow> real \<Rightarrow> yarp_Matrix option" where
  "Matrix_set A r c v =
     (if r < length A \<and> c < length (A ! r) then Some (A[r := (A ! r)[c := v]]) else None)"

definition Vector_get :: "yarp_Vector \<Rightarrow> nat \<Rightarrow> real option" where
  "Vector_get b i = (if i < length b then Some (b ! i) else None)"

definition Vector_set :: "yarp_Vector \<Rightarrow> nat \<Rightarrow> real \<Rightarrow> yarp_Vector option" where
  "Vector_set b i v = (if i < length b then Some (b[i := v]) else None)"

text \<open>
  \<^verbatim>\<open>resize\<close> keeps the entries that fit in the new shape. The library does not say what
  a fresh entry holds; it is \<open>0\<close> here.
\<close>

definition Matrix_resize :: "yarp_Matrix \<Rightarrow> nat \<Rightarrow> nat \<Rightarrow> yarp_Matrix" where
  "Matrix_resize A r c =
     map (\<lambda>i. map (\<lambda>j. if i < length A \<and> j < length (A ! i) then A ! i ! j else 0) [0..<c])
       [0..<r]"

definition Vector_resize :: "yarp_Vector \<Rightarrow> nat \<Rightarrow> yarp_Vector" where
  "Vector_resize b n = take n b @ replicate (n - length b) 0"

text \<open>
  The object: the members \<^verbatim>\<open>_ransac_distance_thr\<close>, \<^verbatim>\<open>_pointCloud\<close> and
  \<^verbatim>\<open>_projectedPointCloud\<close>, the two clouds held by pointer and so kept from call to call.
\<close>

record convex_hull =
  ransac_distance_thr :: real
  pointCloud :: PointCloud
  projectedPointCloud :: PointCloud

text \<open>The constructor \<^verbatim>\<open>convex_hull::convex_hull()\<close>.\<close>

definition convex_hull_new :: convex_hull where
  "convex_hull_new =
     \<lparr>ransac_distance_thr = 0.001, pointCloud = [], projectedPointCloud = []\<rparr>"

section \<open>Conversion and projection\<close>

definition fromKDLVector2PCLPointXYZ :: "KDL_Vector \<Rightarrow> PointXYZ" where
  "fromKDLVector2PCLPointXYZ point =
     \<lparr>pcl_x = kdl_x point, pcl_y = kdl_y point, pcl_z = kdl_z point\<rparr>"

text \<open>The loop pushes each converted point at the back of the cloud it is given.\<close>

fun fromSTDList2PCLPointCloud :: "KDL_Vector list \<Rightarrow> PointCloud \<Rightarrow> PointCloud" where
  "fromSTDList2PCLPointCloud [] point_cloud = point_cloud"
| "fromSTDList2PCLPointCloud (i # points) point_cloud =
     fromSTDList2PCLPointCloud points (point_cloud @ [fromKDLVector2PCLPointXYZ i])"

text \<open>
  Modelled from the spec: \<^verbatim>\<open>pcl::ProjectInliers::filter\<close> with the model type
  \<^verbatim>\<open>SACMODEL_PLANE\<close> is library code that is not among the sources. The specification
  (4.1) says that it produces a new point set where each input point is orthogonally
  projected onto the plane; the plane is \<open>a x + b y + c z + d = 0\<close> for the four model
  coefficients. The output cloud is replaced, not extended.
\<close>

definition ProjectInliers_filter :: "real list \<Rightarrow> PointCloud \<Rightarrow> PointCloud" where
  "ProjectInliers_filter values cloud =
     (case values of
        [a, b, c, d] \<Rightarrow>
          map (\<lambda>q. let t = (a * pcl_x q + b * pcl_y q + c * pcl_z q + d) / (a * a + b * b + c * c)
                   in \<lparr>pcl_x = pcl_x q - t * a, pcl_y = pcl_y q - t * b, pcl_z = pcl_z q - t * c\<rparr>)
            cloud
      | _ \<Rightarrow> [])"

text \<open>
  \<^verbatim>\<open>projectPCL2Plane\<close> fills the coefficients of the plane \<open>(0 0 1)\<close>, offset \<open>0\<close>, and
  filters the cloud through them. The result is what the source stores in
  \<^verbatim>\<open>projected_point_cloud\<close>. The segmentation that would read the parameter
  \<^verbatim>\<open>ransac_distance_thr\<close> (here \<open>ransac_thr\<close>) is commented out in the source.
\<close>

definition projectPCL2Plane :: "PointCloud \<Rightarrow> real \<Rightarrow> PointCloud" where
  "projectPCL2Plane cloud ransac_thr =
     (let values = replicate 4 0;
          values = values[0 := 0];
          values = values[1 := 0];
          values = values[2 := 1];
          values = values[3 := 0]
      in ProjectInliers_filter values cloud)"

section \<open>Constraints from the hull\<close>

definition getLineCoefficients :: "PointXYZ \<Rightarrow> PointXYZ \<Rightarrow> real \<times> real \<times> real" where
  "getLineCoefficients p0 p1 =
     (let x1 = pcl_x p0; x2 = pcl_x p1; y1 = pcl_y p0; y2 = pcl_y p1;
          a = y1 - y2;
          b = x2 - x1;
          c = - b * y1 - a * x1
      in (a, b, c))"

text \<open>
  The body of the inner loop of \<^verbatim>\<open>getConstraints\<close>, in its two halves: the branch on the
  sign of \<^verbatim>\<open>_c\<close> that writes row \<open>z\<close>, and the margin \<^verbatim>\<open>ch_boundary\<close> on \<^verbatim>\<open>b[z]\<close>.
\<close>

definition orient_row ::
  "yarp_Matrix \<Rightarrow> yarp_Vector \<Rightarrow> nat \<Rightarrow> real \<Rightarrow> real \<Rightarrow> real \<Rightarrow> (yarp_Matrix \<times> yarp_Vector) option" where
  "orient_row A b z ca cb cc =
     (if cc \<le> 0 then
        do { A1 \<leftarrow> Matrix_set A z 0 ca;
             A2 \<leftarrow> Matrix_set A1 z 1 cb;
             b1 \<leftarrow> Vector_set b z (- cc);
             Some (A2, b1) }
      else
        do { A1 \<leftarrow> Matrix_set A z 0 (- ca);
             A2 \<leftarrow> Matrix_set A1 z 1 (- cb);
             b1 \<leftarrow> Vector_set b z cc;
             Some (A2, b1) })"

definition shrink_row :: "yarp_Vector \<Rightarrow> nat \<Rightarrow> real \<Rightarrow> yarp_Vector option" where
  "shrink_row b z cc =
     (let ch_boundary = 0.01
      in if \<bar>cc\<bar> \<le> ch_boundary then Vector_set b z 0
         else do { v \<leftarrow> Vector_get b z; Vector_set b z (v - ch_boundary) })"

text \<open>\<^verbatim>\<open>pointsInConvexHull[n]\<close>: no bounds check in the source.\<close>

definition cloud_at :: "PointCloud \<Rightarrow> nat \<Rightarrow> PointXYZ option" where
  "cloud_at cloud n = (if n < length cloud then Some (cloud ! n) else None)"

text \<open>
  One pass of the inner loop, for \<open>j < length vs\<close> (the loop's guard), so that
  \<open>vs ! j\<close> and \<open>vs ! k\<close> are in range.
\<close>

definition edge_body ::
  "PointCloud \<Rightarrow> Vertices \<Rightarrow> nat \<Rightarrow> yarp_Matrix \<Rightarrow> yarp_Vector \<Rightarrow> nat \<Rightarrow>
     (yarp_Matrix \<times> yarp_Vector) option" where
  "edge_body pointsInConvexHull vs j A b z =
     (let k = (j + 1) mod length vs
      in do { p0 \<leftarrow> cloud_at pointsInConvexHull (vs ! j);
              p1 \<leftarrow> cloud_at pointsInConvexHull (vs ! k);
              (ca, cb, cc) \<leftarrow> Some (getLineCoefficients p0 p1);
              (A1, b1) \<leftarrow> orient_row A b z ca cb cc;
              b2 \<leftarrow> shrink_row b1 z cc;
              Some (A1, b2) })"

function vertices_loop ::
  "PointCloud \<Rightarrow> Vertices \<Rightarrow> nat \<Rightarrow> yarp_Matrix \<Rightarrow> yarp_Vector \<Rightarrow> nat \<Rightarrow>
     (yarp_Matrix \<times> yarp_Vector \<times> nat) option" where
  "vertices_loop pointsInConvexHull vs j A b z =
     (if j < length vs then
        do { (A1, b1) \<leftarrow> edge_body pointsInConvexHull vs j A b z;
             vertices_loop pointsInConvexHull vs (j + 1) A1 b1 (z + 1) }
      else Some (A, b, z))"
  by pat_completeness auto
termination
  by (relation "measure (\<lambda>(c, vs, j, A, b, z). length vs - j)") auto

function polygons_loop ::
  "PointCloud \<Rightarrow> Vertices list \<Rightarrow> nat \<Rightarrow> yarp_Matrix \<Rightarrow> yarp_Vector \<Rightarrow> nat \<Rightarrow>
     (yarp_Matrix \<times> yarp_Vector \<times> nat) option" where
  "polygons_loop pointsInConvexHull indicesOfVertexes i A b z =
     (if i < length indicesOfVertexes then
        do { (A1, b1, z1) \<leftarrow> vertices_loop pointsInConvexHull (indicesOfVertexes ! i) 0 A b z;
             polygons_loop pointsInConvexHull indicesOfVertexes (i + 1) A1 b1 z1 }
      else Some (A, b, z))"
  by pat_completeness auto
termination
  by (relation "measure (\<lambda>(c, ivs, i, A, b, z). length ivs - i)") auto

declare vertices_loop.simps [simp del]
declare polygons_loop.simps [simp del]

definition getConstraints ::
  "PointCloud \<Rightarrow> Vertices list \<Rightarrow> yarp_Matrix \<Rightarrow> yarp_Vector \<Rightarrow> (yarp_Matrix \<times> yarp_Vector) option" where
  "getConstraints pointsInConvexHull indicesOfVertexes A b =
     (let A0 = Matrix_resize A (length pointsInConvexHull) 2;
          b0 = Vector_resize b (length pointsInConvexHull)
      in do { (A1, b1, z) \<leftarrow> polygons_loop pointsInConvexHull indicesOfVertexes 0 A0 b0 0;
              Some (A1, b1) })"

section \<open>The hull call\<close>

text \<open>
  \<^verbatim>\<open>pcl::ConvexHull::reconstruct\<close> is the library's hull routine; it is the parameter
  \<open>reconstruct\<close>, from the input cloud to the hull's points and its polygons. The call
  returns the object and the caller's \<open>A\<close> and \<open>b\<close> as it leaves them. The local copy
  \<^verbatim>\<open>hullVertices\<close> of the \<^verbatim>\<open>else\<close> branch is never read.
\<close>

definition getConvexHull ::
  "(PointCloud \<Rightarrow> PointCloud \<times> Vertices list) \<Rightarrow> convex_hull \<Rightarrow> KDL_Vector list \<Rightarrow>
     yarp_Matrix \<Rightarrow> yarp_Vector \<Rightarrow> (convex_hull \<times> yarp_Matrix \<times> yarp_Vector) option" where
  "getConvexHull reconstruct this points A b =
     (let this1 = this\<lparr>pointCloud := fromSTDList2PCLPointCloud points (pointCloud this)\<rparr>;
          this2 = this1\<lparr>projectedPointCloud :=
                    projectPCL2Plane (pointCloud this1) (ransac_distance_thr this1)\<rparr>;
          (pointsInConvexHull, indicesOfVertexes) = reconstruct (projectedPointCloud this2)
      in if length indicesOfVertexes \<noteq> 1 then Some (this2, A, b)
         else do { (A1, b1) \<leftarrow> getConstraints pointsInConvexHull indicesOfVertexes A b;
                   Some (this2\<lparr>pointCloud := [], projectedPointCloud := []\<rparr>, A1, b1) })"

section \<open>Support polygon points\<close>

text \<open>
  Modelled from the spec: the frame algebra of KDL and \<^verbatim>\<open>YarptoKDL\<close> are library code
  that is not among the sources. The specification (4.4) takes the pose of a contact frame
  relative to the root frame and composes it with the inverse of the pose of the centre of
  mass. A frame is a rotation \<open>M\<close> (nine entries, row by row) and a position \<open>p\<close>; the
  default frame has the identity rotation and the zero position; the inverse of a rotation
  is its transpose.
\<close>

datatype Rotation = Rotation real real real real real real real real real

definition Rotation_Identity :: Rotation where
  "Rotation_Identity = Rotation 1 0 0 0 1 0 0 0 1"

fun Rotation_Inverse :: "Rotation \<Rightarrow> Rotation" where
  "Rotation_Inverse (Rotation d0 d1 d2 d3 d4 d5 d6 d7 d8) = Rotation d0 d3 d6 d1 d4 d7 d2 d5 d8"

fun Rotation_apply :: "Rotation \<Rightarrow> KDL_Vector \<Rightarrow> KDL_Vector" where
  "Rotation_apply (Rotation d0 d1 d2 d3 d4 d5 d6 d7 d8) v =
     \<lparr>kdl_x = d0 * kdl_x v + d1 * kdl_y v + d2 * kdl_z v,
      kdl_y = d3 * kdl_x v + d4 * kdl_y v + d5 * kdl_z v,
      kdl_z = d6 * kdl_x v + d7 * kdl_y v + d8 * kdl_z v\<rparr>"

fun Rotation_mult :: "Rotation \<Rightarrow> Rotation \<Rightarrow> Rotation" where
  "Rotation_mult (Rotation a0 a1 a2 a3 a4 a5 a6 a7 a8) (Rotation c0 c1 c2 c3 c4 c5 c6 c7 c8) =
     Rotation (a0 * c0 + a1 * c3 + a2 * c6) (a0 * c1 + a1 * c4 + a2 * c7) (a0 * c2 + a1 * c5 + a2 * c8)
              (a3 * c0 + a4 * c3 + a5 * c6) (a3 * c1 + a4 * c4 + a5 * c7) (a3 * c2 + a4 * c5 + a5 * c8)
              (a6 * c0 + a7 * c3 + a8 * c6) (a6 * c1 + a7 * c4 + a8 * c7) (a6 * c2 + a7 * c5 + a8 * c8)"

definition Vector_Zero :: KDL_Vector where
  "Vector_Zero = \<lparr>kdl_x = 0, kdl_y = 0, kdl_z = 0\<rparr>"

definition Vector_add :: "KDL_Vector \<Rightarrow> KDL_Vector \<Rightarrow> KDL_Vector" where
  "Vector_add u v = \<lparr>kdl_x = kdl_x u + kdl_x v, kdl_y = kdl_y u + kdl_y v, kdl_z = kdl_z u + kdl_z v\<rparr>"

definition Vector_neg :: "KDL_Vector \<Rightarrow> KDL_Vector" where
  "Vector_neg v = \<lparr>kdl_x = - kdl_x v, kdl_y = - kdl_y v, kdl_z = - kdl_z v\<rparr>"

record Frame =
  frame_M :: Rotation
  frame_p :: KDL_Vector

definition Frame_new :: Frame where
  "Frame_new = \<lparr>frame_M = Rotation_Identity, frame_p = Vector_Zero\<rparr>"

definition Frame_Inverse :: "Frame \<Rightarrow> Frame" where
  "Frame_Inverse f =
     \<lparr>frame_M = Rotation_Inverse (frame_M f),
      frame_p = Vector_neg (Rotation_apply (Rotation_Inverse (frame_M f)) (frame_p f))\<rparr>"

definition Frame_mult :: "Frame \<Rightarrow> Frame \<Rightarrow> Frame" where
  "Frame_mult lhs rhs =
     \<lparr>frame_M = Rotation_mult (frame_M lhs) (frame_M rhs),
      frame_p = Vector_add (Rotation_apply (frame_M lhs) (frame_p rhs)) (frame_p lhs)\<rparr>"

text \<open>\<^verbatim>\<open>YarptoKDL\<close> copies a vector of three entries and leaves the target alone otherwise.\<close>

definition YarptoKDL :: "yarp_Vector \<Rightarrow> KDL_Vector \<Rightarrow> KDL_Vector" where
  "YarptoKDL yarpVector kdlVector =
     (case yarpVector of
        [v0, v1, v2] \<Rightarrow> \<lparr>kdl_x = v0, kdl_y = v1, kdl_z = v2\<rparr>
      | _ \<Rightarrow> kdlVector)"

text \<open>
  The robot, as far as \<^verbatim>\<open>getSupportPolygonPoints\<close> asks it: the three queries of the
  member \<^verbatim>\<open>coman_iDyn3\<close>, which answer from the robot's state and do not change it.
\<close>

record DynTree =
  getLinkIndex :: "string \<Rightarrow> int"
  getPositionKDL :: "int \<Rightarrow> Frame"
  getCOM :: yarp_Vector

record iDynUtils =
  coman_iDyn3 :: DynTree

text \<open>
  The loop over \<^verbatim>\<open>names\<close>. \<^verbatim>\<open>waist_T_CoM\<close> is declared before the loop and only its
  position is written in each pass, so it is carried along.
\<close>

function support_loop ::
  "iDynUtils \<Rightarrow> string list \<Rightarrow> nat \<Rightarrow> Frame \<Rightarrow> KDL_Vector list \<Rightarrow> KDL_Vector list" where
  "support_loop robot names i waist_T_CoM points =
     (if i < length names then
        let waist_T_point =
              getPositionKDL (coman_iDyn3 robot) (getLinkIndex (coman_iDyn3 robot) (names ! i));
            waist_T_CoM1 =
              waist_T_CoM\<lparr>frame_p := YarptoKDL (getCOM (coman_iDyn3 robot)) (frame_p waist_T_CoM)\<rparr>;
            CoM_T_point = Frame_mult (Frame_Inverse waist_T_CoM1) waist_T_point
        in support_loop robot names (i + 1) waist_T_CoM1 (points @ [frame_p CoM_T_point])
      else points)"
  by pat_completeness auto
termination
  by (relation "measure (\<lambda>(r, names, i, f, ps). length names - i)") auto

declare support_loop.simps [simp del]

definition getSupportPolygonPoints :: "iDynUtils \<Rightarrow> KDL_Vector list \<Rightarrow> KDL_Vector list" where
  "getSupportPolygonPoints robot points =
     (let names = [];
          names = names @ [''l_foot_lower_left_link''];
          names = names @ [''l_foot_lower_right_link''];
          names = names @ [''l_foot_upper_left_link''];
          names = names @ [''l_foot_upper_right_link''];
          names = names @ [''r_foot_lower_left_link''];
          names = names @ [''r_foot_lower_right_link''];
          names = names @ [''r_foot_upper_left_link''];
          names = names @ [''r_foot_upper_right_link'']
      in support_loop robot names 0 Frame_new points)"

section \<open>The specification's constraint system\<close>

text \<open>
  The line of edge \<open>j\<close> of a loop, from vertex \<open>j\<close> to its cyclic successor, as the inner
  loop of \<^verbatim>\<open>getConstraints\<close> asks for it.
\<close>

definition edge_line :: "PointCloud \<Rightarrow> Vertices \<Rightarrow> nat \<Rightarrow> real \<times> real \<times> real" where
  "edge_line pointsInConvexHull vs j =
     getLineCoefficients (pointsInConvexHull ! (vs ! j))
       (pointsInConvexHull ! (vs ! ((j + 1) mod length vs)))"

text \<open>
  The specification's words (4.3), to compare the code with. Step 2: if \<open>c \<le> 0\<close> keep
  \<open>(a, b)\<close> as the row and use \<open>- c\<close> as the bound; if \<open>c > 0\<close> negate \<open>(a, b)\<close> and use
  \<open>c\<close>. Step 3: if \<open>|c|\<close> is at most the boundary margin, force the bound to \<open>0\<close>;
  otherwise subtract the margin from it.
\<close>

definition spec_row :: "real \<times> real \<times> real \<Rightarrow> real list" where
  "spec_row l = (case l of (a, b, c) \<Rightarrow> if c \<le> 0 then [a, b] else [- a, - b])"

definition spec_bound :: "real \<times> real \<times> real \<Rightarrow> real" where
  "spec_bound l =
     (case l of (a, b, c) \<Rightarrow>
        let boundary_margin = 0.01;
            oriented = (if c \<le> 0 then - c else c)
        in if \<bar>c\<bar> \<le> boundary_margin then 0 else oriented - boundary_margin)"

text \<open>
  A well-formed single loop: one vertex for each point of the hull, every index in range.
\<close>

definition well_formed_hull :: "PointCloud \<Rightarrow> Vertices \<Rightarrow> bool" where
  "well_formed_hull pointsInConvexHull vs \<longleftrightarrow>
     length vs = length pointsInConvexHull \<and> list_all (\<lambda>v. v < length pointsInConvexHull) vs"


section \<open>Test inputs\<close>

text \<open>The square and the collinear points of the specification's test cases (8).\<close>

definition square_points :: "KDL_Vector list" where
  "square_points =
     [\<lparr>kdl_x = 1, kdl_y = 1, kdl_z = 0\<rparr>, \<lparr>kdl_x = 1, kdl_y = - 1, kdl_z = 0\<rparr>,
      \<lparr>kdl_x = - 1, kdl_y = - 1, kdl_z = 0\<rparr>, \<lparr>kdl_x = - 1, kdl_y = 1, kdl_z = 0\<rparr>]"

definition collinear_points :: "KDL_Vector list" where
  "collinear_points =
     [\<lparr>kdl_x = 0, kdl_y = 0, kdl_z = 0\<rparr>, \<lparr>kdl_x = 1, kdl_y = 0, kdl_z = 0\<rparr>,
      \<lparr>kdl_x = 2, kdl_y = 0, kdl_z = 0\<rparr>]"

text \<open>
  Two results the hull routine can give: no polygon at all, as for points with no area
  between them, and every input point on one loop in the order given.
\<close>

definition reconstruct_none :: "PointCloud \<Rightarrow> PointCloud \<times> Vertices list" where
  "reconstruct_none cloud = ([], [])"

definition reconstruct_all :: "PointCloud \<Rightarrow> PointCloud \<times> Vertices list" where
  "reconstruct_all cloud = (cloud, [[0..<length cloud]])"





section \<open>Conversion, projection and the arrays\<close>

lemma plane_values: "(replicate 4 (0::real))[0 := 0, 1 := 0, 2 := 1, 3 := 0] = [0, 0, 1, 0]"
  by (simp add: numeral_eq_Suc)

lemma projectPCL2Plane_map:
  "projectPCL2Plane cloud thr = map (\<lambda>q. q\<lparr>pcl_z := 0\<rparr>) cloud"
  unfolding projectPCL2Plane_def Let_def plane_values
  by (simp add: ProjectInliers_filter_def)

lemma fromSTDList2PCLPointCloud_append:
  "fromSTDList2PCLPointCloud points point_cloud = point_cloud @ map fromKDLVector2PCLPointXYZ points"
  by (induction points arbitrary: point_cloud) simp_all

lemma Matrix_resize_length: "length (Matrix_resize A r c) = r"
  by (simp add: Matrix_resize_def)

lemma Vector_resize_length: "length (Vector_resize b n) = n"
  by (simp add: Vector_resize_def)

lemma upt4: "[0..<4] = [0, 1, 2, 3]"
  by code_simp

lemma square_cloud:
  "map fromKDLVector2PCLPointXYZ square_points =
     [\<lparr>pcl_x = 1, pcl_y = 1, pcl_z = 0\<rparr>, \<lparr>pcl_x = 1, pcl_y = - 1, pcl_z = 0\<rparr>,
      \<lparr>pcl_x = - 1, pcl_y = - 1, pcl_z = 0\<rparr>, \<lparr>pcl_x = - 1, pcl_y = 1, pcl_z = 0\<rparr>]"
  by (simp add: square_points_def fromKDLVector2PCLPointXYZ_def)

lemma collinear_cloud:
  "map fromKDLVector2PCLPointXYZ collinear_points =
     [\<lparr>pcl_x = 0, pcl_y = 0, pcl_z = 0\<rparr>, \<lparr>pcl_x = 1, pcl_y = 0, pcl_z = 0\<rparr>,
      \<lparr>pcl_x = 2, pcl_y = 0, pcl_z = 0\<rparr>]"
  by (simp add: collinear_points_def fromKDLVector2PCLPointXYZ_def)

text \<open>
  C7. Planar projection maps each point \<open>(x, y, z)\<close> to \<open>(x, y, 0)\<close>, one output point
  for each input point; an empty input gives an empty output, and a cloud that already lies
  in the plane \<open>z = 0\<close> is returned as it is.
\<close>

theorem projectPCL2Plane_drops_z:
  "projectPCL2Plane cloud thr =
     map (\<lambda>q. \<lparr>pcl_x = pcl_x q, pcl_y = pcl_y q, pcl_z = 0\<rparr>) cloud \<and>
   length (projectPCL2Plane cloud thr) = length cloud \<and>
   projectPCL2Plane [] thr = [] \<and>
   (list_all (\<lambda>q. pcl_z q = 0) cloud \<longrightarrow> projectPCL2Plane cloud thr = cloud)"
  by (simp add: projectPCL2Plane_map list_all_iff map_idI)

theorem projectPCL2Plane_drops_z_witness:
  "list_all (\<lambda>q. pcl_z q = 0) (map fromKDLVector2PCLPointXYZ square_points) \<and>
   projectPCL2Plane (map fromKDLVector2PCLPointXYZ square_points) 0.001 =
     map fromKDLVector2PCLPointXYZ square_points"
proof -
  have z: "list_all (\<lambda>q. pcl_z q = 0) (map fromKDLVector2PCLPointXYZ square_points)"
    by (simp add: square_cloud)
  from projectPCL2Plane_drops_z [of "map fromKDLVector2PCLPointXYZ square_points" "0.001"] z
  show ?thesis
    by blast
qed

section \<open>Line coefficients\<close>

text \<open>
  C5. For two consecutive hull vertices \<open>p0 = (x0, y0)\<close> and \<open>p1 = (x1, y1)\<close>,
  \<^verbatim>\<open>getLineCoefficients\<close> returns \<open>a = y0 - y1\<close>, \<open>b = x1 - x0\<close> and
  \<open>c = - b y0 - a x0\<close>.
\<close>

theorem getLineCoefficients_formula:
  "getLineCoefficients p0 p1 =
     (pcl_y p0 - pcl_y p1,
      pcl_x p1 - pcl_x p0,
      - (pcl_x p1 - pcl_x p0) * pcl_y p0 - (pcl_y p0 - pcl_y p1) * pcl_x p0)"
  by (simp add: getLineCoefficients_def Let_def algebra_simps)

section \<open>One edge\<close>

lemma orient_row_Some:
  assumes "z < length A" "length (A ! z) = 2" "z < length b"
  shows "orient_row A b z ca cb cc =
           Some (A[z := (if cc \<le> 0 then [ca, cb] else [- ca, - cb])],
                 b[z := (if cc \<le> 0 then - cc else cc)])"
proof -
  obtain u v where uv: "A ! z = [u, v]"
    using assms(2) by (metis (no_types, lifting) One_nat_def Suc_1 length_0_conv length_Suc_conv)
  show ?thesis
    using assms uv by (simp add: orient_row_def Matrix_set_def Vector_set_def)
qed

lemma shrink_row_Some:
  assumes "z < length b"
  shows "shrink_row b z cc = Some (b[z := (if \<bar>cc\<bar> \<le> 0.01 then 0 else b ! z - 0.01)])"
  using assms by (simp add: shrink_row_def Vector_set_def Vector_get_def Let_def)

lemma orient_row_length:
  assumes "orient_row A b z ca cb cc = Some (A1, b1)"
  shows "z < length b1"
  using assms
  by (auto simp: orient_row_def Matrix_set_def Vector_set_def split: if_splits Option.bind_splits)

lemma edge_body_orient_shrink:
  assumes "j < length vs" "list_all (\<lambda>v. v < length P) vs"
    and "getLineCoefficients (P ! (vs ! j)) (P ! (vs ! ((j + 1) mod length vs))) = (ca, cb, cc)"
  shows "edge_body P vs j A b z =
           do { (A1, b1) \<leftarrow> orient_row A b z ca cb cc;
                b2 \<leftarrow> shrink_row b1 z cc;
                Some (A1, b2) }"
proof -
  have "0 < length vs"
    using assms(1) by (cases vs) simp_all
  then have k: "(j + 1) mod length vs < length vs"
    by simp
  have "vs ! j < length P" "vs ! ((j + 1) mod length vs) < length P"
    using assms(1,2) k by (simp_all add: list_all_length del: One_nat_def)
  then show ?thesis
    using assms(3) by (simp add: edge_body_def cloud_at_def Let_def)
qed

lemma square_edges:
  "getLineCoefficients (map fromKDLVector2PCLPointXYZ square_points ! ([0, 1, 2] ! 0))
     (map fromKDLVector2PCLPointXYZ square_points ! ([0, 1, 2] ! ((0 + 1) mod length [0, 1, 2::nat]))) =
     (2, 0, - 2)"
  "getLineCoefficients (map fromKDLVector2PCLPointXYZ square_points ! ([0, 1, 2] ! 2))
     (map fromKDLVector2PCLPointXYZ square_points ! ([0, 1, 2] ! ((2 + 1) mod length [0, 1, 2::nat]))) =
     (- 2, 2, 0)"
  "getLineCoefficients (map fromKDLVector2PCLPointXYZ square_points ! ([1, 0, 2] ! 0))
     (map fromKDLVector2PCLPointXYZ square_points ! ([1, 0, 2] ! ((0 + 1) mod length [1, 0, 2::nat]))) =
     (- 2, 0, 2)"
  by (simp_all add: square_cloud getLineCoefficients_def)

lemma square_loops:
  "list_all (\<lambda>v. v < length (map fromKDLVector2PCLPointXYZ square_points)) [0, 1, 2]"
  "list_all (\<lambda>v. v < length (map fromKDLVector2PCLPointXYZ square_points)) [1, 0, 2]"
  by (simp_all add: square_points_def)

text \<open>
  C4. For a hull edge \<open>j\<close> with line coefficients \<open>(a, b, c)\<close>, written at a row \<open>z\<close> that
  exists: if \<open>c \<le> 0\<close> the row of \<open>A\<close> is \<open>(a, b)\<close> and the bound entry, before the margin
  is applied, is \<open>- c\<close>; if \<open>c > 0\<close> the row is \<open>(- a, - b)\<close> and the bound entry is \<open>c\<close>.
  The row is the one the pass of the loop for that edge leaves in \<open>A\<close>.
\<close>

theorem orient_row_sign:
  assumes "j < length vs" "list_all (\<lambda>v. v < length pointsInConvexHull) vs"
    and "getLineCoefficients (pointsInConvexHull ! (vs ! j))
           (pointsInConvexHull ! (vs ! ((j + 1) mod length vs))) = (ca, cb, cc)"
    and "z < length A" "length (A ! z) = 2" "z < length b"
  shows "\<exists>A1 b1 b2.
           orient_row A b z ca cb cc = Some (A1, b1) \<and>
           edge_body pointsInConvexHull vs j A b z = Some (A1, b2) \<and>
           (cc \<le> 0 \<longrightarrow> A1 ! z = [ca, cb] \<and> b1 ! z = - cc) \<and>
           (0 < cc \<longrightarrow> A1 ! z = [- ca, - cb] \<and> b1 ! z = cc)"
  using assms(4-6)
  by (simp add: edge_body_orient_shrink [OF assms(1-3)] orient_row_Some shrink_row_Some)

theorem orient_row_sign_witness:
  "(\<exists>A1 b1 b2.
      orient_row [[0, 0]] [0] 0 2 0 (- 2) = Some (A1, b1) \<and>
      edge_body (map fromKDLVector2PCLPointXYZ square_points) [0, 1, 2] 0 [[0, 0]] [0] 0 = Some (A1, b2) \<and>
      A1 ! 0 = [2, 0] \<and> b1 ! 0 = 2) \<and>
   (\<exists>A1 b1 b2.
      orient_row [[0, 0]] [0] 0 (- 2) 0 2 = Some (A1, b1) \<and>
      edge_body (map fromKDLVector2PCLPointXYZ square_points) [1, 0, 2] 0 [[0, 0]] [0] 0 = Some (A1, b2) \<and>
      A1 ! 0 = [2, 0] \<and> b1 ! 0 = 2)"
proof -
  have h: "(0::nat) < length [[0, 0::real]]" "length ([[0, 0::real]] ! 0) = 2" "(0::nat) < length [0::real]"
    by simp_all
  have j: "(0::nat) < length [0, 1, 2::nat]" "(0::nat) < length [1, 0, 2::nat]"
    by simp_all
  from orient_row_sign [OF j(1) square_loops(1) square_edges(1) h]
    orient_row_sign [OF j(2) square_loops(2) square_edges(3) h]
  show ?thesis
    by auto
qed

text \<open>
  C3. For the row of a hull edge \<open>j\<close>, after the orientation step: if \<open>|c| \<le> 0.01\<close> the
  entry of \<open>b\<close> is set to \<open>0\<close>; otherwise \<open>0.01\<close> is subtracted from it. The step
  succeeds in both cases, touches no other entry, and its result is what the pass of the
  loop for that edge leaves in \<open>b\<close>.
\<close>

theorem shrink_row_after_orient:
  assumes "j < length vs" "list_all (\<lambda>v. v < length pointsInConvexHull) vs"
    and "getLineCoefficients (pointsInConvexHull ! (vs ! j))
           (pointsInConvexHull ! (vs ! ((j + 1) mod length vs))) = (ca, cb, cc)"
    and "orient_row A b z ca cb cc = Some (A1, b1)"
  shows "\<exists>b2. shrink_row b1 z cc = Some b2 \<and>
           edge_body pointsInConvexHull vs j A b z = Some (A1, b2) \<and>
           length b2 = length b1 \<and>
           (\<bar>cc\<bar> \<le> 0.01 \<longrightarrow> b2 ! z = 0) \<and>
           (\<not> \<bar>cc\<bar> \<le> 0.01 \<longrightarrow> b2 ! z = b1 ! z - 0.01) \<and>
           (\<forall>i. i \<noteq> z \<longrightarrow> b2 ! i = b1 ! i)"
proof -
  have z: "z < length b1"
    using assms(4) by (rule orient_row_length)
  show ?thesis
    by (simp add: edge_body_orient_shrink [OF assms(1-3)] assms(4) shrink_row_Some [OF z] z)
qed

theorem shrink_row_after_orient_witness:
  "(\<exists>b2. shrink_row [2] 0 (- 2) = Some b2 \<and>
      edge_body (map fromKDLVector2PCLPointXYZ square_points) [0, 1, 2] 0 [[0, 0]] [0] 0 =
        Some ([[2, 0]], b2) \<and>
      b2 ! 0 = 199 / 100) \<and>
   (\<exists>b2. shrink_row [0] 0 0 = Some b2 \<and>
      edge_body (map fromKDLVector2PCLPointXYZ square_points) [0, 1, 2] 2 [[0, 0]] [0] 0 =
        Some ([[- 2, 2]], b2) \<and>
      b2 ! 0 = 0)"
proof -
  have o1: "orient_row [[0, 0]] [0] 0 2 0 (- 2) = Some ([[2, 0]], [2])"
    by (simp add: orient_row_def Matrix_set_def Vector_set_def)
  have o2: "orient_row [[0, 0]] [0] 0 (- 2) 2 0 = Some ([[- 2, 2]], [0])"
    by (simp add: orient_row_def Matrix_set_def Vector_set_def)
  have j: "(0::nat) < length [0, 1, 2::nat]" "(2::nat) < length [0, 1, 2::nat]"
    by simp_all
  from shrink_row_after_orient [OF j(1) square_loops(1) square_edges(1) o1]
    shrink_row_after_orient [OF j(2) square_loops(1) square_edges(2) o2]
  show ?thesis
    by auto
qed

section \<open>The loops of getConstraints\<close>

lemma edge_body_Some:
  assumes "j < length vs" "\<forall>v\<in>set vs. v < length P"
    and "z < length A" "length (A ! z) = 2" "z < length b"
  shows "edge_body P vs j A b z =
           Some (A[z := spec_row (edge_line P vs j)], b[z := spec_bound (edge_line P vs j)])"
proof -
  have "0 < length vs"
    using assms(1) by (cases vs) simp_all
  then have k: "(j + 1) mod length vs < length vs"
    by simp
  have "vs ! j < length P" "vs ! ((j + 1) mod length vs) < length P"
    using assms(1,2) k by (simp_all add: nth_mem del: One_nat_def)
  then show ?thesis
    using assms(3-5)
    by (cases "edge_line P vs j")
      (simp add: edge_body_def cloud_at_def edge_line_def orient_row_Some shrink_row_Some
        spec_row_def spec_bound_def Let_def)
qed

lemma spec_row_length: "length (spec_row l) = 2"
  by (cases l) (simp add: spec_row_def)

lemma vertices_loop_Some:
  assumes "\<forall>v\<in>set vs. v < length P" "\<forall>r\<in>set A. length r = 2" "length b = length A"
    and "n = length vs - j" "j \<le> length vs" "z + n \<le> length A"
  shows "vertices_loop P vs j A b z =
           Some (take z A @ map (\<lambda>i. spec_row (edge_line P vs i)) [j..<length vs] @ drop (z + n) A,
                 take z b @ map (\<lambda>i. spec_bound (edge_line P vs i)) [j..<length vs] @ drop (z + n) b,
                 z + n)"
  using assms
proof (induction n arbitrary: j A b z)
  case 0
  then show ?case
    by (simp add: vertices_loop.simps)
next
  case (Suc n)
  let ?r = "spec_row (edge_line P vs j)" and ?c = "spec_bound (edge_line P vs j)"
  from Suc.prems have j: "j < length vs" and z: "z < length A" "z < length b"
    by simp_all
  have row: "length (A ! z) = 2"
    using Suc.prems(2) z by simp
  have step: "edge_body P vs j A b z = Some (A[z := ?r], b[z := ?c])"
    using edge_body_Some [OF j Suc.prems(1) z(1) row z(2)] .
  have rows: "\<forall>r\<in>set (A[z := ?r]). length r = 2"
    using Suc.prems(2) spec_row_length [of "edge_line P vs j"]
    by (auto dest!: set_update_subset_insert [THEN subsetD])
  have IH: "vertices_loop P vs (Suc j) (A[z := ?r]) (b[z := ?c]) (Suc z) =
      Some (take (Suc z) (A[z := ?r]) @ map (\<lambda>i. spec_row (edge_line P vs i)) [Suc j..<length vs]
              @ drop (Suc z + n) (A[z := ?r]),
            take (Suc z) (b[z := ?c]) @ map (\<lambda>i. spec_bound (edge_line P vs i)) [Suc j..<length vs]
              @ drop (Suc z + n) (b[z := ?c]),
            Suc z + n)"
    using Suc.prems by (intro Suc.IH [OF Suc.prems(1) rows]) simp_all
  have tA: "take (Suc z) (A[z := ?r]) = take z A @ [?r]"
    using z by (simp add: take_Suc_conv_app_nth)
  have tb: "take (Suc z) (b[z := ?c]) = take z b @ [?c]"
    using z by (simp add: take_Suc_conv_app_nth)
  have up: "[j..<length vs] = j # [Suc j..<length vs]"
    using j by (simp add: upt_conv_Cons)
  show ?case
    by (subst vertices_loop.simps) (simp add: j step IH tA tb up)
qed

lemma polygons_loop_single:
  assumes "vertices_loop P vs 0 A b 0 = Some (A1, b1, z1)"
  shows "polygons_loop P [vs] 0 A b 0 = Some (A1, b1, z1)"
  by (subst polygons_loop.simps, simp add: assms, subst polygons_loop.simps, simp)

lemma getConstraints_single_loop:
  assumes "well_formed_hull P vs"
  shows "getConstraints P [vs] A b =
           Some (map (\<lambda>i. spec_row (edge_line P vs i)) [0..<length vs],
                 map (\<lambda>i. spec_bound (edge_line P vs i)) [0..<length vs])"
proof -
  let ?A = "Matrix_resize A (length P) 2" and ?b = "Vector_resize b (length P)"
  have len: "length vs = length P" and idx: "\<forall>v\<in>set vs. v < length P"
    using assms by (simp_all add: well_formed_hull_def list_all_iff)
  have rows: "\<forall>r\<in>set ?A. length r = 2"
    by (auto simp: Matrix_resize_def)
  have "vertices_loop P vs 0 ?A ?b 0 =
          Some (take 0 ?A @ map (\<lambda>i. spec_row (edge_line P vs i)) [0..<length vs] @ drop (0 + length vs) ?A,
                take 0 ?b @ map (\<lambda>i. spec_bound (edge_line P vs i)) [0..<length vs] @ drop (0 + length vs) ?b,
                0 + length vs)"
    by (rule vertices_loop_Some [OF idx rows])
      (simp_all add: len Matrix_resize_length Vector_resize_length)
  then have "vertices_loop P vs 0 ?A ?b 0 =
          Some (map (\<lambda>i. spec_row (edge_line P vs i)) [0..<length vs],
                map (\<lambda>i. spec_bound (edge_line P vs i)) [0..<length vs], length vs)"
    by (simp add: len Matrix_resize_length Vector_resize_length)
  from polygons_loop_single [OF this] show ?thesis
    by (simp add: getConstraints_def Let_def)
qed

lemma square_rows:
  "map (\<lambda>j. spec_row (edge_line (map fromKDLVector2PCLPointXYZ square_points) [0, 1, 2, 3] j)) [0..<4] =
     [[2, 0], [0, - 2], [- 2, 0], [0, 2]]"
  by (simp add: upt4 square_cloud edge_line_def getLineCoefficients_def spec_row_def Let_def)

lemma square_bounds:
  "map (\<lambda>j. spec_bound (edge_line (map fromKDLVector2PCLPointXYZ square_points) [0, 1, 2, 3] j)) [0..<4] =
     [199 / 100, 199 / 100, 199 / 100, 199 / 100]"
  by (simp add: upt4 square_cloud edge_line_def getLineCoefficients_def spec_bound_def Let_def)

text \<open>
  C6. For a well-formed single-loop hull with \<open>E\<close> boundary edges, \<open>A\<close> has exactly \<open>E\<close>
  rows of two columns and \<open>b\<close> has \<open>E\<close> entries, row \<open>j\<close> being the specification's row for
  edge \<open>j\<close>: one row for each edge, in the order of traversal, none merged or dropped.
\<close>

theorem getConstraints_one_row_per_edge:
  assumes "well_formed_hull pointsInConvexHull vs"
  shows "\<exists>A1 b1. getConstraints pointsInConvexHull [vs] A b = Some (A1, b1) \<and>
           length A1 = length vs \<and> length b1 = length vs \<and>
           list_all (\<lambda>r. length r = 2) A1 \<and>
           A1 = map (\<lambda>j. spec_row (edge_line pointsInConvexHull vs j)) [0..<length vs] \<and>
           b1 = map (\<lambda>j. spec_bound (edge_line pointsInConvexHull vs j)) [0..<length vs]"
  by (simp add: getConstraints_single_loop [OF assms] list_all_iff spec_row_length)

theorem getConstraints_one_row_per_edge_witness:
  "well_formed_hull (map fromKDLVector2PCLPointXYZ square_points) [0, 1, 2, 3] \<and>
   getConstraints (map fromKDLVector2PCLPointXYZ square_points) [[0, 1, 2, 3]] [] [] =
     Some ([[2, 0], [0, - 2], [- 2, 0], [0, 2]], [199 / 100, 199 / 100, 199 / 100, 199 / 100])"
proof -
  have wf: "well_formed_hull (map fromKDLVector2PCLPointXYZ square_points) [0, 1, 2, 3]"
    by (simp add: well_formed_hull_def square_points_def)
  from getConstraints_one_row_per_edge [OF wf, of "[]" "[]"] obtain A1 b1
    where g: "getConstraints (map fromKDLVector2PCLPointXYZ square_points) [[0, 1, 2, 3]] [] [] =
                Some (A1, b1)"
      and A1: "A1 = map (\<lambda>j. spec_row (edge_line (map fromKDLVector2PCLPointXYZ square_points)
                 [0, 1, 2, 3] j)) [0..<length [0, 1, 2, 3::nat]]"
      and b1: "b1 = map (\<lambda>j. spec_bound (edge_line (map fromKDLVector2PCLPointXYZ square_points)
                 [0, 1, 2, 3] j)) [0..<length [0, 1, 2, 3::nat]]"
    by blast
  have len: "length [0, 1, 2, 3::nat] = 4"
    by simp
  from A1 b1 have "A1 = [[2, 0], [0, - 2], [- 2, 0], [0, 2]]"
    and "b1 = [199 / 100, 199 / 100, 199 / 100, 199 / 100]"
    unfolding len square_rows square_bounds by blast+
  with g wf show ?thesis
    by blast
qed

section \<open>The hull call\<close>

lemma getConvexHull_unfold:
  "getConvexHull reconstruct this points A b =
     (let cloud = pointCloud this @ map fromKDLVector2PCLPointXYZ points;
          projected = map (\<lambda>q. q\<lparr>pcl_z := 0\<rparr>) cloud;
          this2 = this\<lparr>pointCloud := cloud, projectedPointCloud := projected\<rparr>
      in if length (snd (reconstruct projected)) \<noteq> 1 then Some (this2, A, b)
         else do { (A1, b1) \<leftarrow> getConstraints (fst (reconstruct projected)) (snd (reconstruct projected)) A b;
                   Some (this2\<lparr>pointCloud := [], projectedPointCloud := []\<rparr>, A1, b1) })"
  by (simp add: getConvexHull_def Let_def fromSTDList2PCLPointCloud_append projectPCL2Plane_map
      split: prod.splits)

lemma getConvexHull_output:
  "map_option snd (getConvexHull reconstruct this points A b) =
     (let projected = map (\<lambda>q. q\<lparr>pcl_z := 0\<rparr>) (pointCloud this @ map fromKDLVector2PCLPointXYZ points)
      in if length (snd (reconstruct projected)) \<noteq> 1 then Some (A, b)
         else getConstraints (fst (reconstruct projected)) (snd (reconstruct projected)) A b)"
  by (cases "getConstraints
        (fst (reconstruct (map (\<lambda>q. q\<lparr>pcl_z := 0\<rparr>) (pointCloud this @ map fromKDLVector2PCLPointXYZ points))))
        (snd (reconstruct (map (\<lambda>q. q\<lparr>pcl_z := 0\<rparr>) (pointCloud this @ map fromKDLVector2PCLPointXYZ points))))
        A b")
    (auto simp: getConvexHull_unfold Let_def)

text \<open>
  C1, as the code has it. If the hull reconstruction yields zero loops or more than one,
  \<^verbatim>\<open>getConvexHull\<close> returns without running the constraint step and leaves the caller's
  \<open>A\<close> and \<open>b\<close> exactly as they were passed in; nothing is written into them.
\<close>

theorem getConvexHull_not_one_loop:
  assumes "length (snd (reconstruct (projectPCL2Plane
             (fromSTDList2PCLPointCloud points (pointCloud this)) (ransac_distance_thr this)))) \<noteq> 1"
  shows "map_option snd (getConvexHull reconstruct this points A b) = Some (A, b)"
  using assms by (auto simp: getConvexHull_def Let_def split: prod.splits)

theorem getConvexHull_not_one_loop_witness:
  "length (snd (reconstruct_none (projectPCL2Plane
      (fromSTDList2PCLPointCloud collinear_points (pointCloud convex_hull_new))
      (ransac_distance_thr convex_hull_new)))) \<noteq> 1 \<and>
   map_option snd (getConvexHull reconstruct_none convex_hull_new collinear_points [] []) =
     Some ([], [])"
  using getConvexHull_not_one_loop [of reconstruct_none collinear_points convex_hull_new "[]" "[]"]
  by (simp add: reconstruct_none_def)

text \<open>
  C1, as stated, says that the failing call produces empty \<open>(A, b)\<close>. For the collinear
  points and a caller whose \<open>A\<close> and \<open>b\<close> hold one row from before, the hull has no loop
  and the call returns that row, not the empty system.
\<close>

theorem getConvexHull_failure_keeps_caller_output:
  "length (snd (reconstruct_none (projectPCL2Plane
      (fromSTDList2PCLPointCloud collinear_points (pointCloud convex_hull_new))
      (ransac_distance_thr convex_hull_new)))) = 0 \<and>
   map_option snd (getConvexHull reconstruct_none convex_hull_new collinear_points [[1, 0]] [1]) =
     Some ([[1, 0]], [1]) \<and>
   map_option snd (getConvexHull reconstruct_none convex_hull_new collinear_points [[1, 0]] [1]) \<noteq>
     Some ([], [])"
  by (simp add: getConvexHull_unfold reconstruct_none_def Let_def)

lemma well_formed_hull_upt: "well_formed_hull cloud [0..<length cloud]"
  by (simp add: well_formed_hull_def list_all_iff)

text \<open>
  C2 says that the two scratch clouds are cleared after every call, a failing one included.
  On the failing path the code returns before the two \<^verbatim>\<open>clear()\<close> calls: after the call
  on the collinear points both clouds still hold the three points, and the same call on the
  square then gives another system on that object than on a new one.
\<close>

theorem getConvexHull_failure_keeps_clouds:
  "\<exists>this1.
     getConvexHull reconstruct_none convex_hull_new collinear_points [] [] = Some (this1, [], []) \<and>
     pointCloud this1 = map fromKDLVector2PCLPointXYZ collinear_points \<and>
     projectedPointCloud this1 = map fromKDLVector2PCLPointXYZ collinear_points \<and>
     pointCloud this1 \<noteq> [] \<and>
     map_option snd (getConvexHull reconstruct_all this1 square_points [] []) \<noteq>
     map_option snd (getConvexHull reconstruct_all convex_hull_new square_points [] [])"
proof -
  let ?this1 = "convex_hull_new\<lparr>pointCloud := map fromKDLVector2PCLPointXYZ collinear_points,
    projectedPointCloud := map fromKDLVector2PCLPointXYZ collinear_points\<rparr>"
  have first: "getConvexHull reconstruct_none convex_hull_new collinear_points [] [] =
      Some (?this1, [], [])"
    by (simp add: getConvexHull_unfold reconstruct_none_def Let_def convex_hull_new_def
        collinear_cloud)
  have stale: "map_option (\<lambda>r. length (fst r))
      (map_option snd (getConvexHull reconstruct_all ?this1 square_points [] [])) = Some 7"
    by (simp add: getConvexHull_output reconstruct_all_def Let_def
        getConstraints_single_loop [OF well_formed_hull_upt] collinear_points_def square_points_def)
  have fresh: "map_option (\<lambda>r. length (fst r))
      (map_option snd (getConvexHull reconstruct_all convex_hull_new square_points [] [])) = Some 4"
    by (simp add: getConvexHull_output reconstruct_all_def Let_def convex_hull_new_def
        getConstraints_single_loop [OF well_formed_hull_upt] square_points_def)
  have "map_option snd (getConvexHull reconstruct_all ?this1 square_points [] []) \<noteq>
      map_option snd (getConvexHull reconstruct_all convex_hull_new square_points [] [])"
    using stale fresh by auto
  with first show ?thesis
    by (simp add: collinear_cloud)
qed

text \<open>
  C9. The RANSAC distance threshold is inert: for any two of its values,
  \<^verbatim>\<open>projectPCL2Plane\<close> gives the same projected cloud and \<^verbatim>\<open>getConvexHull\<close> the same
  \<open>(A, b)\<close>.
\<close>

theorem ransac_distance_thr_inert:
  "projectPCL2Plane cloud t1 = projectPCL2Plane cloud t2 \<and>
   map_option snd (getConvexHull reconstruct (this\<lparr>ransac_distance_thr := t1\<rparr>) points A b) =
   map_option snd (getConvexHull reconstruct (this\<lparr>ransac_distance_thr := t2\<rparr>) points A b)"
  by (simp add: projectPCL2Plane_map getConvexHull_output)

section \<open>The square\<close>














section \<open>Support polygon points\<close>

lemma YarptoKDL_idem: "YarptoKDL v (YarptoKDL v q) = YarptoKDL v q"
  by (simp add: YarptoKDL_def split: list.splits)

lemma support_loop_append:
  assumes "n = length names - i"
  shows "support_loop robot names i F points =
           points @
           map (\<lambda>name. frame_p (Frame_mult
                  (Frame_Inverse (F\<lparr>frame_p := YarptoKDL (getCOM (coman_iDyn3 robot)) (frame_p F)\<rparr>))
                  (getPositionKDL (coman_iDyn3 robot) (getLinkIndex (coman_iDyn3 robot) name))))
             (drop i names)"
  using assms
proof (induction n arbitrary: i F points)
  case 0
  then show ?case
    by (subst support_loop.simps) simp
next
  case (Suc n)
  then have i: "i < length names" and n: "n = length names - Suc i"
    by simp_all
  have d: "drop i names = names ! i # drop (Suc i) names"
    using i by (simp add: Cons_nth_drop_Suc)
  show ?case
    by (subst support_loop.simps) (simp add: i d Suc.IH [OF n] Let_def YarptoKDL_idem)
qed

text \<open>
  With a centre of mass of three entries, the composed position is the position of the
  point minus the centre of mass.
\<close>

lemma CoM_T_point_offset:
  "frame_p (Frame_mult
     (Frame_Inverse (Frame_new\<lparr>frame_p := YarptoKDL [c0, c1, c2] (frame_p Frame_new)\<rparr>)) F) =
   \<lparr>kdl_x = kdl_x (frame_p F) - c0, kdl_y = kdl_y (frame_p F) - c1, kdl_z = kdl_z (frame_p F) - c2\<rparr>"
  by (cases "frame_M F")
    (simp add: Frame_mult_def Frame_Inverse_def Frame_new_def YarptoKDL_def Rotation_Identity_def
      Vector_add_def Vector_neg_def Vector_Zero_def)

text \<open>
  C10. For every robot state and every initial content of the list,
  \<^verbatim>\<open>getSupportPolygonPoints\<close> appends exactly eight points at the end of the list, one for
  each named foot corner in the fixed order from left lower left to right upper right, each
  the position of \<^verbatim>\<open>waist_T_CoM.Inverse() * waist_T_point\<close>; the points already in the
  list stay where they are.
\<close>

theorem getSupportPolygonPoints_appends_eight:
  "getSupportPolygonPoints robot points =
     points @
     map (\<lambda>name. frame_p (Frame_mult
            (Frame_Inverse
               (Frame_new\<lparr>frame_p := YarptoKDL (getCOM (coman_iDyn3 robot)) (frame_p Frame_new)\<rparr>))
            (getPositionKDL (coman_iDyn3 robot) (getLinkIndex (coman_iDyn3 robot) name))))
       [''l_foot_lower_left_link'', ''l_foot_lower_right_link'',
        ''l_foot_upper_left_link'', ''l_foot_upper_right_link'',
        ''r_foot_lower_left_link'', ''r_foot_lower_right_link'',
        ''r_foot_upper_left_link'', ''r_foot_upper_right_link''] \<and>
   length (getSupportPolygonPoints robot points) = length points + 8 \<and>
   take (length points) (getSupportPolygonPoints robot points) = points"
  by (simp add: getSupportPolygonPoints_def support_loop_append [OF refl])

end
